theory Spec2Isabelle
  imports Main "HOL-Library.Word"
begin

unbundle bit_operations_syntax

section \<open>Data model (BaseProtocol.h)\<close>

type_synonym u8 = "8 word"
type_synonym u16 = "16 word"

text \<open>
  A \<^verbatim>\<open>uint8_t *\<close> is modelled as the memory reachable from the pointer: byte \<open>i\<close> of the
  buffer is \<open>data i\<close>, and \<^verbatim>\<open>data[i] = v\<close> is \<open>data(i := v)\<close>. No bound is attached to the
  pointer, as in C: a write past the capacity the caller promised shows up as a change
  of the memory at that index.
\<close>

type_synonym buffer = "nat \<Rightarrow> u8"

text \<open>\<^verbatim>\<open>struct Status\<close>\<close>

definition COMMAND_OK :: u8 where "COMMAND_OK = 0x00"
definition COMMAND_FAILED :: u8 where "COMMAND_FAILED = 0x01"
definition COMMAND_NOT_SUPPORTED :: u8 where "COMMAND_NOT_SUPPORTED = 0x02"
definition INVALID_TRANSFER :: u8 where "INVALID_TRANSFER = 0x03"
definition INVALID_CRC :: u8 where "INVALID_CRC = 0x04"
definition INVALID_ARGUMENTS :: u8 where "INVALID_ARGUMENTS = 0x05"
definition NO_REPLY :: u8 where "NO_REPLY = 0xff"

text \<open>\<^verbatim>\<open>struct GeneralCallCommands\<close>\<close>

definition RESET :: u8 where "RESET = 0x06"
definition RESET_ADDRESS :: u8 where "RESET_ADDRESS = 0x04"

text \<open>
  \<^verbatim>\<open>struct cmd_result { uint8_t status; uint8_t len; }\<close>. The field \<^verbatim>\<open>len\<close> is called
  \<open>rlen\<close> here, to keep the name \<open>len\<close> for the length parameters of the functions.
\<close>

record cmd_result =
  status :: u8
  rlen :: u8

text \<open>The constructor \<^verbatim>\<open>cmd_result(status, len = 0)\<close>.\<close>

definition mk_cmd_result :: "u8 \<Rightarrow> u8 \<Rightarrow> cmd_result" where
  "mk_cmd_result s l = \<lparr>status = s, rlen = l\<rparr>"

section \<open>Checksum (BaseProtocol.cpp, calcCrc)\<close>

text \<open>
  Modelled from the spec: \<^verbatim>\<open>_crc8_ccitt_update\<close> of avr-libc's \<^verbatim>\<open>util/crc16.h\<close>, which
  is not part of the source tree. The spec calls it a polynomial-based CRC-8 of the CCITT
  variant; the library documents it as the polynomial \<open>x^8 + x^2 + x + 1\<close>, processed
  bit by bit from the most significant bit: the incoming byte is xor-ed into the running
  value, which is then shifted left eight times, xor-ing \<open>0x07\<close> into it whenever the
  bit shifted out is set.
\<close>

definition crc8_ccitt_shift :: "u8 \<Rightarrow> u8" where
  "crc8_ccitt_shift d =
     (if d AND 0x80 \<noteq> 0 then push_bit 1 d XOR 0x07 else push_bit 1 d)"

text \<open>
  Modelled from the spec: the body of \<^verbatim>\<open>_crc8_ccitt_update(inCrc, inData)\<close>, absent from
  the source tree as said above: eight shift steps on \<open>inCrc XOR inData\<close>.
\<close>

definition crc8_ccitt_update :: "u8 \<Rightarrow> u8 \<Rightarrow> u8" where
  "crc8_ccitt_update inCrc inData = (crc8_ccitt_shift ^^ 8) (inCrc XOR inData)"

text \<open>
  The loop of \<^verbatim>\<open>calcCrc\<close>: \<^verbatim>\<open>for (uint8_t i = 0; i < len; ++i) crc = update(crc, data[i])\<close>,
  with the 8-bit counter.
\<close>

function calcCrc_loop :: "buffer \<Rightarrow> u8 \<Rightarrow> u8 \<Rightarrow> u8 \<Rightarrow> u8" where
  "calcCrc_loop data len i crc =
     (if i < len then calcCrc_loop data len (i + 1) (crc8_ccitt_update crc (data (unat i)))
      else crc)"
  by pat_completeness auto
termination
proof (relation "measure (\<lambda>(data, len, i, crc). unat len - unat i)")
  show "wf (measure (\<lambda>(data, len, i, crc). unat len - unat i))"
    by simp
next
  fix data :: buffer and len i crc :: u8
  assume lt: "i < len"
  then have "unat i < unat len"
    by (simp add: word_less_nat_alt)
  moreover have "unat len < 256"
    using unsigned_less [of len, where 'a = nat] by simp
  ultimately have "unat (i + 1) = unat i + 1"
    by (simp add: unat_word_ariths)
  with \<open>unat i < unat len\<close>
  show "((data, len, i + 1, crc8_ccitt_update crc (data (unat i))), (data, len, i, crc))
          \<in> measure (\<lambda>(data, len, i, crc). unat len - unat i)"
    by simp
qed

definition calcCrc :: "buffer \<Rightarrow> u8 \<Rightarrow> u8" where
  "calcCrc data len = calcCrc_loop data len 0 0"

section \<open>Calls that leave the protocol layer\<close>

text \<open>
  The protocol layer calls the platform (\<^verbatim>\<open>wdt_enable\<close>), the transport
  (\<^verbatim>\<open>TwoWireResetDeviceAddress\<close>) and the application (\<^verbatim>\<open>processCommand\<close>). Each call is
  recorded, in order, with its scalar arguments; a function of the protocol layer
  returns the calls it made together with its result, and the result is \<open>None\<close> when
  the function never returns.
\<close>

datatype wdto = WDTO_15MS

datatype call =
    Wdt_enable wdto
  | TwoWireResetDeviceAddress
  | ProcessCommand u8 u8 u8

text \<open>\<^verbatim>\<open>while(true) /* wait */;\<close>\<close>

partial_function (option) wait :: "unit \<Rightarrow> int option" where
  "wait u = wait u"

section \<open>General calls (BaseProtocol.cpp, handleGeneralCall)\<close>

definition handleGeneralCall :: "buffer \<Rightarrow> u8 \<Rightarrow> u8 \<Rightarrow> call list \<times> int option" where
  "handleGeneralCall data len maxLen =
     (if len \<ge> 1 \<and> data 0 = RESET then ([Wdt_enable WDTO_15MS], wait ())
      else if len \<ge> 1 \<and> data 0 = RESET_ADDRESS then ([TwoWireResetDeviceAddress], Some 0)
      else ([], Some 0))"

section \<open>The dispatcher (BaseProtocol.cpp, TwoWireCallback)\<close>

text \<open>
  The command table is the function \<^verbatim>\<open>processCommand(cmd, data, len, maxLen)\<close> that
  BaseProtocol.h declares and the application defines. It is a parameter of the
  dispatcher: given the command byte, the memory at the pointer it receives and the two
  lengths, it returns its \<open>cmd_result\<close> and that memory as it left it.
\<close>

type_synonym handler = "u8 \<Rightarrow> buffer \<Rightarrow> u8 \<Rightarrow> u8 \<Rightarrow> cmd_result \<times> buffer"

text \<open>
  \<^verbatim>\<open>data + 1\<close>: the memory seen from the pointer one byte further, and the memory at
  \<open>data\<close> once the callee has written through that pointer (byte 0 is out of its reach).
\<close>

definition plus1 :: "buffer \<Rightarrow> buffer" where
  "plus1 data = (\<lambda>i. data (Suc i))"

definition written_back :: "buffer \<Rightarrow> buffer \<Rightarrow> buffer" where
  "written_back data out = (\<lambda>i. case i of 0 \<Rightarrow> data 0 | Suc j \<Rightarrow> out j)"

text \<open>
  The common tail of \<^verbatim>\<open>TwoWireCallback\<close>:
  \<^verbatim>\<open>data[len] = calcCrc(data, len); ++len; return len;\<close>
  (\<^verbatim>\<open>len\<close> is a \<^verbatim>\<open>uint8_t\<close>, the function returns \<^verbatim>\<open>int\<close>).
\<close>

definition append_crc :: "buffer \<Rightarrow> u8 \<Rightarrow> int \<times> buffer" where
  "append_crc data len = (uint (len + 1), data(unat len := calcCrc data len))"

definition TwoWireCallback ::
    "handler \<Rightarrow> u8 \<Rightarrow> buffer \<Rightarrow> u8 \<Rightarrow> u8 \<Rightarrow> call list \<times> (int \<times> buffer) option" where
  "TwoWireCallback processCommand address data len maxLen =
     (if address = 0 then
        (case handleGeneralCall data len maxLen of
           (calls, r) \<Rightarrow> (calls, map_option (\<lambda>n. (n, data)) r))
      else if maxLen < 2 then ([], Some (0, data))
      else if len < 2 then ([], Some (append_crc (data(0 := INVALID_TRANSFER)) 1))
      else
        let crc = calcCrc data len in
        if crc \<noteq> 0 then ([], Some (append_crc (data(0 := INVALID_CRC)) 1))
        else
          let (res, out) = processCommand (data 0) (plus1 data) (len - 2) (maxLen - 2);
              calls = [ProcessCommand (data 0) (len - 2) (maxLen - 2)];
              data' = written_back data out
          in if status res = NO_REPLY then (calls, Some (0, data'))
             else (calls, Some (append_crc (data'(0 := status res)) (rlen res + 1))))"

section \<open>The application's command table (Main.cpp, processCommand)\<close>

text \<open>\<^verbatim>\<open>struct Commands\<close>\<close>

definition GET_LAST_MEASUREMENT :: u8 where "GET_LAST_MEASUREMENT = 0x80"

text \<open>
  \<^verbatim>\<open>processCommand(cmd, datain, len, dataout, maxLen)\<close> of Main.cpp, reading the global
  \<^verbatim>\<open>uint16_t measurement[2]\<close>. It returns its result and the memory at \<^verbatim>\<open>dataout\<close>.
  \<^verbatim>\<open>dataout[0] = measurement[0] >> 8\<close> keeps the low eight bits of the shifted value.
\<close>

definition processCommand ::
    "u16 list \<Rightarrow> u8 \<Rightarrow> buffer \<Rightarrow> u8 \<Rightarrow> buffer \<Rightarrow> u8 \<Rightarrow> cmd_result \<times> buffer" where
  "processCommand measurement cmd datain len dataout maxLen =
     (if cmd = GET_LAST_MEASUREMENT then
        if len \<noteq> 0 \<or> maxLen < 4 then (mk_cmd_result INVALID_ARGUMENTS 0, dataout)
        else (mk_cmd_result COMMAND_OK 4,
              dataout(0 := ucast (drop_bit 8 (measurement ! 0)),
                      1 := ucast (measurement ! 0),
                      2 := ucast (drop_bit 8 (measurement ! 1)),
                      3 := ucast (measurement ! 1)))
      else (mk_cmd_result COMMAND_NOT_SUPPORTED 0, dataout))"

text \<open>
  Main.cpp defines the command table with separate input and output pointers, while
  BaseProtocol.h declares it, and \<^verbatim>\<open>TwoWireCallback\<close> calls it, with the single pointer
  \<^verbatim>\<open>data + 1\<close>. The two are joined by passing that pointer for both, the handler
  writing its reply where the dispatcher frames it.
\<close>

definition command_table :: "u16 list \<Rightarrow> handler" where
  "command_table measurement =
     (\<lambda>cmd data len maxLen. processCommand measurement cmd data len data maxLen)"

text \<open>
  A second command table, not one of the repository: it fails every command, declares a
  payload of 255 bytes and writes nothing. It stands for an arbitrary table where the
  dispatcher never reaches the table (general calls).
\<close>

definition oversized_table :: handler where
  "oversized_table cmd data len maxLen = (mk_cmd_result COMMAND_FAILED 255, data)"

section \<open>Observing a call of the dispatcher\<close>

text \<open>A request as the transport hands it over: the received bytes, zero beyond them.\<close>

definition frame :: "u8 list \<Rightarrow> buffer" where
  "frame bs = (\<lambda>i. if i < length bs then bs ! i else 0)"

text \<open>The length returned, and the reply the transport sends: the first bytes of the buffer.\<close>

definition returned :: "call list \<times> (int \<times> buffer) option \<Rightarrow> int option" where
  "returned r = map_option fst (snd r)"

definition reply :: "call list \<times> (int \<times> buffer) option \<Rightarrow> u8 list option" where
  "reply r = map_option (\<lambda>(n, data). map data [0..<nat n]) (snd r)"

section \<open>The checksum as a function of a byte count\<close>

text \<open>
  The value of the running checksum after the first \<open>n\<close> bytes, for any natural
  \<open>n\<close>; \<open>calcCrc\<close> is shown below to compute it for the lengths an 8-bit \<^verbatim>\<open>len\<close>
  can express.
\<close>

primrec crc_upto :: "buffer \<Rightarrow> nat \<Rightarrow> u8" where
  "crc_upto data 0 = 0"
| "crc_upto data (Suc n) = crc8_ccitt_update (crc_upto data n) (data n)"

text \<open>The effect on the running checksum of one further byte that is zero.\<close>

definition crc8_zero :: "u8 \<Rightarrow> u8" where
  "crc8_zero c = crc8_ccitt_update c 0"

section \<open>The loop that never ends\<close>

lemma wait_None: "wait u = None"
proof (cases "wait u")
  case None
  then show ?thesis .
next
  case (Some y)
  have False
    by (rule wait.raw_induct [where P = "\<lambda>_ _. False" and u = u and y = y], blast, fact Some)
  then show ?thesis ..
qed

section \<open>Algebra of the checksum step\<close>

lemma shift_0: "crc8_ccitt_shift 0 = 0"
  by (simp add: crc8_ccitt_shift_def)

lemma msb_test: "(d AND 0x80 \<noteq> 0) = bit d 7" for d :: u8
proof -
  have "(0x80 :: u8) = 2 ^ 7" by simp
  then show ?thesis by (simp only: and_exp_eq_0_iff_not_bit simp_thms)
qed

lemma shift_alt: "crc8_ccitt_shift d = push_bit 1 d XOR (if bit d 7 then 7 else 0)"
  by (simp add: crc8_ccitt_shift_def msb_test)

lemma shift_xor: "crc8_ccitt_shift (a XOR b) = crc8_ccitt_shift a XOR crc8_ccitt_shift b"
proof -
  have dbl: "(a XOR b) * 2 = a * 2 XOR b * 2"
  proof -
    have "push_bit 1 (a XOR b) = push_bit 1 a XOR push_bit 1 b"
      by (rule push_bit_xor)
    then show ?thesis
      by (simp only: push_bit_eq_mult power_one_right)
  qed
  show ?thesis
    by (simp add: shift_alt bit_xor_iff dbl xor.assoc xor.left_commute)
qed

lemma shift_eq_0:
  assumes "crc8_ccitt_shift d = 0"
  shows "d = 0"
proof (cases "bit d 7")
  case True
  with assms have "push_bit 1 d XOR 7 = (0::u8)" by (simp add: shift_alt)
  then have "bit (push_bit 1 d XOR (7::u8)) 0 = bit (0::u8) 0" by simp
  then show ?thesis by (simp add: bit_xor_iff bit_0 even_xor_iff)
next
  case False
  with assms have z: "push_bit 1 d = 0" by (simp add: shift_alt)
  show ?thesis
  proof (rule bit_eqI)
    fix n
    assume "possible_bit TYPE(u8) n"
    then have n: "n < 8" by (simp add: possible_bit_def)
    have "bit (push_bit 1 d) (Suc n) = (possible_bit TYPE(u8) (Suc n) \<and> bit d n)"
      unfolding bit_push_bit_iff by simp
    then have "n < 7 \<Longrightarrow> \<not> bit d n"
      unfolding z by (simp add: possible_bit_def)
    moreover have "n = 7 \<Longrightarrow> \<not> bit d n" using False by simp
    ultimately show "bit d n = bit (0::u8) n" using n by (cases "n = 7") auto
  qed
qed

lemma shifts_0: "(crc8_ccitt_shift ^^ n) 0 = 0"
  by (induction n) (simp_all add: shift_0)

lemma shifts_xor:
  "(crc8_ccitt_shift ^^ n) (a XOR b) = (crc8_ccitt_shift ^^ n) a XOR (crc8_ccitt_shift ^^ n) b"
  by (induction n) (simp_all add: shift_xor)

lemma shifts_eq_0: "(crc8_ccitt_shift ^^ n) d = 0 \<Longrightarrow> d = 0"
  by (induction n) (auto dest: shift_eq_0)

lemma update_self: "crc8_ccitt_update c c = 0"
  by (simp add: crc8_ccitt_update_def shifts_0)

lemma update_xor:
  "crc8_ccitt_update (c XOR c') (d XOR d') = crc8_ccitt_update c d XOR crc8_ccitt_update c' d'"
  by (simp only: crc8_ccitt_update_def shifts_xor [symmetric] xor.assoc xor.left_commute)

lemma update_eq_0: "crc8_ccitt_update c d = 0 \<Longrightarrow> c = d"
proof -
  assume "crc8_ccitt_update c d = 0"
  then have "c XOR d = 0"
    unfolding crc8_ccitt_update_def by (rule shifts_eq_0)
  moreover have "c XOR (c XOR d) = d"
    by (simp add: xor.assoc [symmetric])
  ultimately show "c = d" by simp
qed

lemma zeros_eq_0: "(crc8_zero ^^ m) e = 0 \<Longrightarrow> e = 0"
proof (induction m)
  case (Suc m)
  from Suc.prems have "crc8_zero ((crc8_zero ^^ m) e) = 0" by simp
  then have "crc8_ccitt_update ((crc8_zero ^^ m) e) 0 = 0"
    by (simp only: crc8_zero_def)
  then have "(crc8_zero ^^ m) e = 0" by (rule update_eq_0)
  then show ?case by (rule Suc.IH)
qed simp

section \<open>The loop of calcCrc\<close>

lemma unat_succ: "i < len \<Longrightarrow> unat (i + 1) = Suc (unat i)" for i len :: u8
proof -
  assume "i < len"
  then have "unat i < unat len"
    by (simp add: word_less_nat_alt)
  moreover have "unat len < 256"
    using unsigned_less [of len, where 'a = nat] by simp
  ultimately show ?thesis
    by (simp add: unat_word_ariths)
qed

lemma calcCrc_loop_upto:
  "crc = crc_upto data (unat i) \<Longrightarrow> i \<le> len \<Longrightarrow>
   calcCrc_loop data len i crc = crc_upto data (unat len)"
proof (induction data len i crc rule: calcCrc_loop.induct)
  case (1 data len i crc)
  show ?case
  proof (cases "i < len")
    case True
    then have s: "unat (i + 1) = Suc (unat i)" by (rule unat_succ)
    have "i + 1 \<le> len"
      using True s by (simp add: word_le_nat_alt word_less_nat_alt)
    moreover have "crc8_ccitt_update crc (data (unat i)) = crc_upto data (unat (i + 1))"
      using "1.prems"(1) s by simp
    ultimately have "calcCrc_loop data len (i + 1) (crc8_ccitt_update crc (data (unat i)))
        = crc_upto data (unat len)"
      using "1.IH" True by blast
    with True show ?thesis by simp
  next
    case False
    with "1.prems" have "i = len" by simp
    with "1.prems" show ?thesis by simp
  qed
qed

lemma calcCrc_upto: "calcCrc data len = crc_upto data (unat len)"
  unfolding calcCrc_def by (rule calcCrc_loop_upto) simp_all

section \<open>The checksum of a buffer\<close>

lemma crc_upto_cong: "(\<And>i. i < n \<Longrightarrow> d1 i = d2 i) \<Longrightarrow> crc_upto d1 n = crc_upto d2 n"
  by (induction n) simp_all

lemma crc_upto_upd_ge: "n \<le> k \<Longrightarrow> crc_upto (d(k := v)) n = crc_upto d n"
  by (rule crc_upto_cong) simp

lemma crc_upto_append: "crc_upto (d(n := crc_upto d n)) (Suc n) = 0"
  by (simp add: crc_upto_upd_ge update_self)

lemma crc_upto_flip:
  assumes "d' k = d k XOR e" and "\<And>i. i \<noteq> k \<Longrightarrow> d' i = d i"
  shows "k < n \<Longrightarrow> crc_upto d' n = crc_upto d n XOR (crc8_zero ^^ (n - k)) e"
proof (induction n)
  case 0
  then show ?case by simp
next
  case (Suc n)
  show ?case
  proof (cases "k < n")
    case True
    then have "Suc n - k = Suc (n - k)" and "d' n = d n XOR 0"
      by (simp_all add: assms(2))
    moreover have "crc8_ccitt_update (crc_upto d n XOR (crc8_zero ^^ (n - k)) e) (d n XOR 0)
      = crc8_ccitt_update (crc_upto d n) (d n) XOR crc8_zero ((crc8_zero ^^ (n - k)) e)"
      unfolding crc8_zero_def by (rule update_xor)
    ultimately show ?thesis using True Suc.IH by simp
  next
    case False
    with Suc.prems have k: "k = n" by simp
    have "crc_upto d' n = crc_upto d n XOR 0"
      using crc_upto_cong [of n d' d] assms(2) k by simp
    moreover have "crc8_ccitt_update (crc_upto d n XOR 0) (d n XOR e)
      = crc8_ccitt_update (crc_upto d n) (d n) XOR crc8_ccitt_update 0 e"
      by (rule update_xor)
    moreover have "crc8_ccitt_update 0 e = crc8_zero e"
      by (simp add: crc8_zero_def crc8_ccitt_update_def)
    ultimately show ?thesis using k assms(1) by simp
  qed
qed

lemma crc_upto_flip_bit:
  assumes "k < n" "j < 8" "crc_upto d n = 0"
  shows "crc_upto (d(k := flip_bit j (d k))) n \<noteq> 0"
proof -
  have e: "push_bit j 1 \<noteq> (0::u8)"
    using assms(2) by simp
  have "crc_upto (d(k := d k XOR push_bit j 1)) n
      = crc_upto d n XOR (crc8_zero ^^ (n - k)) (push_bit j 1)"
    using assms(1) by (intro crc_upto_flip) simp_all
  moreover have "(crc8_zero ^^ (n - k)) (push_bit j 1) \<noteq> 0"
    using e zeros_eq_0 by blast
  ultimately show ?thesis
    using assms(3) by (simp add: flip_bit_eq_xor)
qed

lemma calcCrc_append: "calcCrc (d(unat n := calcCrc d n)) (n + 1) = 0"
proof (cases "n + 1 = 0")
  case True
  then show ?thesis by (simp add: calcCrc_upto)
next
  case False
  then have "unat (n + 1) = Suc (unat n)" using unatSuc [of n] by (simp add: add.commute)
  then show ?thesis by (simp only: calcCrc_upto crc_upto_append)
qed

lemma calcCrc_1: "calcCrc data 1 = crc8_ccitt_update 0 (data 0)"
  by (simp add: calcCrc_upto)

lemma calcCrc_2: "calcCrc data 2 = crc8_ccitt_update (crc8_ccitt_update 0 (data 0)) (data 1)"
proof -
  have "unat (2 :: u8) = Suc (Suc 0)" by simp
  then show ?thesis unfolding calcCrc_upto by (simp add: numeral_2_eq_2)
qed

lemma calcCrc_5: "calcCrc data 5 = crc8_ccitt_update (crc8_ccitt_update (crc8_ccitt_update
     (crc8_ccitt_update (crc8_ccitt_update 0 (data 0)) (data 1)) (data 2)) (data 3)) (data 4)"
proof -
  have "unat (5 :: u8) = Suc (Suc (Suc (Suc (Suc 0))))" by simp
  then show ?thesis
    unfolding calcCrc_upto
    by (simp add: numeral_2_eq_2 numeral_3_eq_3 eval_nat_numeral(2) [of "num.Bit0 num.One"])
qed

section \<open>Checksums of particular frames\<close>

lemma crc_transfer: "crc8_ccitt_update 0 INVALID_TRANSFER = 0x09"
  by code_simp

lemma crc_crc: "crc8_ccitt_update 0 INVALID_CRC = 0x1C"
  by code_simp

lemma crc_request: "crc8_ccitt_update (crc8_ccitt_update 0 0x80) 0x89 = 0"
  by code_simp

lemma crc_bad_request: "crc8_ccitt_update (crc8_ccitt_update 0 0x80) 0x00 = 0xB6"
  by code_simp

lemma crc_measurement:
  "crc8_ccitt_update (crc8_ccitt_update (crc8_ccitt_update (crc8_ccitt_update
     (crc8_ccitt_update 0 0x00) 0x12) 0x34) 0x56) 0x78 = 0x1C"
  by code_simp

lemma calcCrc_request: "calcCrc (frame [0x80, 0x89]) 2 = 0"
  by (simp add: calcCrc_2 frame_def crc_request)

lemma upt_6: "[0..<6] = [0, 1, 2, 3, 4, 5]"
  by code_simp

lemma upt_2: "[0..<2] = [0, 1]"
  by code_simp

section \<open>The branches of the dispatcher\<close>

lemma unat_plus1: "p \<le> 254 \<Longrightarrow> unat (p + 1) = Suc (unat p)" for p :: u8
proof -
  assume "p \<le> 254"
  then have "unat p \<le> 254" by (simp add: word_le_nat_alt)
  then show ?thesis by (simp add: unat_word_ariths)
qed

lemma uint_plus2: "p \<le> 253 \<Longrightarrow> uint (p + 1 + 1) = uint p + 2" for p :: u8
proof -
  assume "p \<le> 253"
  then have "unat p \<le> 253" by (simp add: word_le_nat_alt)
  then have "unat (p + 1 + 1) = unat p + 2" by (simp add: unat_word_ariths)
  then have "int (unat (p + 1 + 1)) = int (unat p) + 2" by simp
  then show ?thesis by simp
qed

lemma written_back_simps:
  "written_back data out 0 = data 0"
  "written_back data out (Suc j) = out j"
  "written_back data out (numeral k) = out (pred_numeral k)"
  by (simp_all add: written_back_def numeral_eq_Suc)

lemma TwoWireCallback_general:
  "TwoWireCallback h 0 data len maxLen =
     (if len \<ge> 1 \<and> data 0 = RESET then ([Wdt_enable WDTO_15MS], None)
      else if len \<ge> 1 \<and> data 0 = RESET_ADDRESS
           then ([TwoWireResetDeviceAddress], Some (0, data))
      else ([], Some (0, data)))"
  by (simp add: TwoWireCallback_def handleGeneralCall_def wait_None)

lemma TwoWireCallback_short:
  assumes "address \<noteq> 0" and "len < 2" and "2 \<le> maxLen"
  shows "TwoWireCallback h address data len maxLen
           = ([], Some (2, data(0 := INVALID_TRANSFER, 1 := 0x09)))"
proof -
  have "\<not> maxLen < 2" using assms(3) by simp
  then show ?thesis
    using assms(1,2) by (simp add: TwoWireCallback_def append_crc_def calcCrc_1 crc_transfer)
qed

lemma TwoWireCallback_bad_crc:
  assumes "address \<noteq> 0" and "2 \<le> len" and "2 \<le> maxLen" and "calcCrc data len \<noteq> 0"
  shows "TwoWireCallback h address data len maxLen
           = ([], Some (2, data(0 := INVALID_CRC, 1 := 0x1C)))"
proof -
  have "\<not> maxLen < 2" "\<not> len < 2" using assms(2,3) by simp_all
  then show ?thesis
    using assms(1,4) by (simp add: TwoWireCallback_def append_crc_def calcCrc_1 crc_crc)
qed

lemma TwoWireCallback_handler:
  assumes "address \<noteq> 0" and "2 \<le> len" and "2 \<le> maxLen" and "calcCrc data len = 0"
    and "h (data 0) (plus1 data) (len - 2) (maxLen - 2) = (res, out)"
  shows "TwoWireCallback h address data len maxLen =
     (if status res = NO_REPLY
      then ([ProcessCommand (data 0) (len - 2) (maxLen - 2)], Some (0, written_back data out))
      else ([ProcessCommand (data 0) (len - 2) (maxLen - 2)],
            Some (append_crc ((written_back data out)(0 := status res)) (rlen res + 1))))"
proof -
  have "\<not> maxLen < 2" "\<not> len < 2" using assms(2,3) by simp_all
  then show ?thesis
    using assms(1,4,5) by (simp add: TwoWireCallback_def)
qed

section \<open>The command table of Main.cpp\<close>

lemma measurement_bytes:
  "(ucast (drop_bit 8 (0x1234 :: u16)) :: u8) = 0x12" "(ucast (0x1234 :: u16) :: u8) = 0x34"
  "(ucast (drop_bit 8 (0x5678 :: u16)) :: u8) = 0x56" "(ucast (0x5678 :: u16) :: u8) = 0x78"
  by code_simp+

lemma get_last_measurement_any:
  "command_table [m0, m1] 0x80 d 0 4
     = (mk_cmd_result COMMAND_OK 4,
        d(0 := ucast (drop_bit 8 m0), 1 := ucast m0, 2 := ucast (drop_bit 8 m1), 3 := ucast m1))"
  by (simp add: command_table_def processCommand_def GET_LAST_MEASUREMENT_def)

lemma get_last_measurement:
  "command_table [0x1234, 0x5678] 0x80 d 0 4
     = (mk_cmd_result COMMAND_OK 4, d(0 := 0x12, 1 := 0x34, 2 := 0x56, 3 := 0x78))"
  by (simp only: get_last_measurement_any measurement_bytes)

lemma TwoWireCallback_measurement:
  assumes "address \<noteq> 0" and "data 0 = 0x80" and "data 1 = 0x89"
  shows "TwoWireCallback (command_table [0x1234, 0x5678]) address data 2 6
    = ([ProcessCommand 0x80 0 4],
       Some (6, (written_back data ((plus1 data)(0 := 0x12, 1 := 0x34, 2 := 0x56, 3 := 0x78)))
                  (0 := COMMAND_OK, 5 := 0x1C)))"
proof -
  have "calcCrc data 2 = 0"
    using assms(2,3) by (simp add: calcCrc_2 crc_request)
  then show ?thesis
    using assms(1,2)
    by (simp add: TwoWireCallback_def get_last_measurement mk_cmd_result_def append_crc_def
        calcCrc_5 written_back_simps COMMAND_OK_def NO_REPLY_def crc_measurement)
qed

section \<open>Claims\<close>

subsection \<open>Checksum\<close>

text \<open>
  C2: \<open>calcCrc\<close> depends on the first \<open>n\<close> bytes of the buffer only, and storing its
  result as byte \<open>n\<close> makes the checksum over the \<open>n + 1\<close> bytes zero. The second
  conjunct states this with the 8-bit length \<open>n + 1\<close> that \<open>calcCrc\<close> takes, the third
  with the byte count as a natural number (so that it also speaks of 256 bytes when
  \<open>n = 255\<close>), and the last one in the other direction: a frame of \<open>m\<close> bytes whose
  trailing byte is the checksum of the bytes before it checksums to zero.
\<close>

theorem calcCrc_trailing_checksum:
  "((\<forall>i < unat n. d i = d' i) \<longrightarrow> calcCrc d n = calcCrc d' n)
   \<and> calcCrc (d(unat n := calcCrc d n)) (n + 1) = 0
   \<and> crc_upto (d(unat n := calcCrc d n)) (Suc (unat n)) = 0
   \<and> (0 < m \<and> d (unat m - 1) = calcCrc d (m - 1) \<longrightarrow> calcCrc d m = 0)"
proof -
  have "calcCrc d n = calcCrc d' n" if "\<forall>i < unat n. d i = d' i"
    unfolding calcCrc_upto using that by (intro crc_upto_cong) simp
  moreover have "crc_upto (d(unat n := calcCrc d n)) (Suc (unat n)) = 0"
    unfolding calcCrc_upto by (rule crc_upto_append)
  moreover have "calcCrc d m = 0" if m: "0 < m" and t: "d (unat m - 1) = calcCrc d (m - 1)"
  proof -
    have "unat (m - 1) = unat m - 1"
      using m by (simp add: unat_minus_one word_neq_0_conv [symmetric])
    then have "d(unat (m - 1) := calcCrc d (m - 1)) = d"
      using t by (intro fun_upd_idem) simp
    with calcCrc_append [of d "m - 1"] show ?thesis by simp
  qed
  ultimately show ?thesis using calcCrc_append by blast
qed

theorem calcCrc_trailing_checksum_witness:
  "unat (1 :: u8) = 1 \<and> frame [0x03, 0x09] 0 = frame [0x03, 0xFF] 0
   \<and> calcCrc (frame [0x03, 0x09]) 1 = calcCrc (frame [0x03, 0xFF]) 1
   \<and> (0 < (2 :: u8) \<and> frame [0x03, 0x09] (unat (2 :: u8) - 1) = calcCrc (frame [0x03, 0x09]) (2 - 1))
   \<and> calcCrc (frame [0x03, 0x09]) 2 = 0"
proof -
  have a0: "unat (1 :: u8) = 1 \<and> frame [0x03, 0x09] 0 = frame [0x03, 0xFF] 0"
    by (simp add: frame_def)
  then have a: "\<forall>i < unat (1 :: u8). frame [0x03, 0x09] i = frame [0x03, 0xFF] i"
    by simp
  have b: "0 < (2 :: u8) \<and> frame [0x03, 0x09] (unat (2 :: u8) - 1)
      = calcCrc (frame [0x03, 0x09]) (2 - 1)"
    using crc_transfer by (simp add: calcCrc_1 frame_def INVALID_TRANSFER_def)
  from a0 a b calcCrc_trailing_checksum [of 1 "frame [0x03, 0x09]" "frame [0x03, 0xFF]" 2]
  show ?thesis by blast
qed

subsection \<open>Bus-visible encodings\<close>

text \<open>
  C10: the status bytes are \<open>COMMAND_OK = 0x00\<close>, \<open>COMMAND_FAILED = 0x01\<close>,
  \<open>COMMAND_NOT_SUPPORTED = 0x02\<close>, \<open>INVALID_TRANSFER = 0x03\<close>, \<open>INVALID_CRC = 0x04\<close>,
  \<open>INVALID_ARGUMENTS = 0x05\<close> and \<open>NO_REPLY = 0xff\<close>, the general-call directives are
  \<open>RESET = 0x06\<close> and \<open>RESET_ADDRESS = 0x04\<close>, and the directive \<open>RESET_ADDRESS\<close> has
  the value of the status \<open>INVALID_CRC\<close>.
\<close>

theorem bus_encodings:
  "COMMAND_OK = 0x00 \<and> COMMAND_FAILED = 0x01 \<and> COMMAND_NOT_SUPPORTED = 0x02
   \<and> INVALID_TRANSFER = 0x03 \<and> INVALID_CRC = 0x04 \<and> INVALID_ARGUMENTS = 0x05
   \<and> NO_REPLY = 0xff \<and> RESET = 0x06 \<and> RESET_ADDRESS = 0x04
   \<and> RESET_ADDRESS = INVALID_CRC"
  by (simp add: COMMAND_OK_def COMMAND_FAILED_def COMMAND_NOT_SUPPORTED_def INVALID_TRANSFER_def
      INVALID_CRC_def INVALID_ARGUMENTS_def NO_REPLY_def RESET_def RESET_ADDRESS_def)

subsection \<open>General calls\<close>

text \<open>
  C8: a general call (address 0) with \<open>len \<ge> 1\<close> and \<open>data[0] = RESET\<close> arms the
  watchdog, which is the only call it makes, and then never returns: there is no
  returned length and no reply.
\<close>

theorem general_call_RESET_never_returns:
  assumes "len \<ge> 1" and "data 0 = RESET"
  shows "handleGeneralCall data len maxLen = ([Wdt_enable WDTO_15MS], None)
       \<and> TwoWireCallback h 0 data len maxLen = ([Wdt_enable WDTO_15MS], None)"
  using assms by (simp add: TwoWireCallback_general handleGeneralCall_def wait_None)

theorem general_call_RESET_never_returns_witness:
  "(1 :: u8) \<ge> 1 \<and> frame [0x06] 0 = RESET
   \<and> handleGeneralCall (frame [0x06]) 1 6 = ([Wdt_enable WDTO_15MS], None)
   \<and> TwoWireCallback oversized_table 0 (frame [0x06]) 1 6 = ([Wdt_enable WDTO_15MS], None)"
proof -
  have a: "(1 :: u8) \<ge> 1" by simp
  have b: "frame [0x06] 0 = RESET" by (simp add: frame_def RESET_def)
  from a b
    general_call_RESET_never_returns [where len = 1 and data = "frame [0x06]" and maxLen = 6
      and h = oversized_table, OF a b]
  show ?thesis by blast
qed

text \<open>
  C9: a general call with \<open>len \<ge> 1\<close> and \<open>data[0] = RESET_ADDRESS\<close> calls the
  bus-address reset exactly once, makes no other call and returns 0; with \<open>len = 0\<close>, or
  a first byte that is neither \<open>RESET\<close> nor \<open>RESET_ADDRESS\<close>, it makes no call and
  returns 0. A general call that returns leaves the buffer as it was and returns 0, so
  no reply is ever produced; and what a general call does is fixed by \<open>len\<close> and the first
  byte alone, whatever the other bytes, the command table and \<open>maxLen\<close> are, so no
  checksum over the frame enters it.
\<close>

theorem general_call_RESET_ADDRESS_and_others:
  "(len \<ge> 1 \<and> data 0 = RESET_ADDRESS \<longrightarrow>
      TwoWireCallback h 0 data len maxLen = ([TwoWireResetDeviceAddress], Some (0, data)))
   \<and> (len = 0 \<or> (data 0 \<noteq> RESET \<and> data 0 \<noteq> RESET_ADDRESS) \<longrightarrow>
      TwoWireCallback h 0 data len maxLen = ([], Some (0, data)))
   \<and> (snd (TwoWireCallback h 0 data len maxLen) = None
        \<or> snd (TwoWireCallback h 0 data len maxLen) = Some (0, data))
   \<and> (data' 0 = data 0 \<longrightarrow>
        fst (TwoWireCallback h' 0 data' len maxLen') = fst (TwoWireCallback h 0 data len maxLen)
      \<and> returned (TwoWireCallback h' 0 data' len maxLen')
          = returned (TwoWireCallback h 0 data len maxLen))"
  by (auto simp add: TwoWireCallback_general returned_def RESET_def RESET_ADDRESS_def
      word_le_nat_alt unat_gt_0)

theorem general_call_RESET_ADDRESS_and_others_witness:
  "((1 :: u8) \<ge> 1 \<and> frame [0x04, 0x1C] 0 = RESET_ADDRESS)
   \<and> TwoWireCallback oversized_table 0 (frame [0x04, 0x1C]) 1 6
       = ([TwoWireResetDeviceAddress], Some (0, frame [0x04, 0x1C]))
   \<and> frame [0x04, 0x77] 0 = frame [0x04, 0x1C] 0
   \<and> fst (TwoWireCallback (command_table [0x1234, 0x5678]) 0 (frame [0x04, 0x77]) 1 2)
       = fst (TwoWireCallback oversized_table 0 (frame [0x04, 0x1C]) 1 6)
   \<and> (frame [0x80, 0x89] 0 \<noteq> RESET \<and> frame [0x80, 0x89] 0 \<noteq> RESET_ADDRESS)
   \<and> TwoWireCallback oversized_table 0 (frame [0x80, 0x89]) 2 6
       = ([], Some (0, frame [0x80, 0x89]))"
proof -
  have a: "(1 :: u8) \<ge> 1 \<and> frame [0x04, 0x1C] 0 = RESET_ADDRESS"
    by (simp add: frame_def RESET_ADDRESS_def)
  have b: "frame [0x04, 0x77] 0 = frame [0x04, 0x1C] 0"
    by (simp add: frame_def)
  have c: "frame [0x80, 0x89] 0 \<noteq> RESET \<and> frame [0x80, 0x89] 0 \<noteq> RESET_ADDRESS"
    by (simp add: frame_def RESET_def RESET_ADDRESS_def)
  from a b c
    general_call_RESET_ADDRESS_and_others [of 1 "frame [0x04, 0x1C]" oversized_table 6
      "frame [0x04, 0x77]" "command_table [0x1234, 0x5678]" 2]
    general_call_RESET_ADDRESS_and_others [of 2 "frame [0x80, 0x89]" oversized_table 6]
  show ?thesis by blast
qed

subsection \<open>Addressed calls that are not dispatched\<close>

text \<open>
  C7: an addressed call with \<open>maxLen < 2\<close> returns 0, makes no call and leaves every byte
  of the buffer as it was.
\<close>

theorem no_room_no_write:
  assumes "address \<noteq> 0" and "maxLen < 2"
  shows "TwoWireCallback h address data len maxLen = ([], Some (0, data))"
  using assms by (simp add: TwoWireCallback_def)

theorem no_room_no_write_witness:
  "(8 :: u8) \<noteq> 0 \<and> (1 :: u8) < 2
   \<and> TwoWireCallback (command_table [0x1234, 0x5678]) 8 (frame [0x80, 0x89]) 2 1
       = ([], Some (0, frame [0x80, 0x89]))"
proof -
  have a: "(8 :: u8) \<noteq> 0" by simp
  have b: "(1 :: u8) < 2" by simp
  from a b
    no_room_no_write [where address = 8 and maxLen = 1 and h = "command_table [0x1234, 0x5678]"
      and data = "frame [0x80, 0x89]" and len = 2, OF a b]
  show ?thesis by blast
qed

text \<open>
  C4: an addressed call with \<open>len < 2\<close> and \<open>maxLen \<ge> 2\<close> returns 2 and makes no call;
  the reply is the two bytes \<open>INVALID_TRANSFER\<close> and \<open>0x09\<close>, and the checksum over these
  two bytes is zero.
\<close>

theorem short_frame_INVALID_TRANSFER:
  assumes "address \<noteq> 0" and "len < 2" and "2 \<le> maxLen"
  shows "TwoWireCallback h address data len maxLen
           = ([], Some (2, data(0 := INVALID_TRANSFER, 1 := 0x09)))
       \<and> reply (TwoWireCallback h address data len maxLen) = Some [INVALID_TRANSFER, 0x09]
       \<and> calcCrc (data(0 := INVALID_TRANSFER, 1 := 0x09)) 2 = 0"
proof -
  note tw = TwoWireCallback_short [OF assms, of h data]
  moreover have "reply (TwoWireCallback h address data len maxLen)
      = Some [INVALID_TRANSFER, 0x09]"
    by (simp add: tw reply_def upt_2)
  moreover have "calcCrc (data(0 := INVALID_TRANSFER, 1 := 0x09)) 2 = 0"
    using calcCrc_append [of "data(0 := INVALID_TRANSFER)" 1]
    by (simp add: calcCrc_1 crc_transfer)
  ultimately show ?thesis by simp
qed

theorem short_frame_INVALID_TRANSFER_witness:
  "(8 :: u8) \<noteq> 0 \<and> (1 :: u8) < 2 \<and> (2 :: u8) \<le> 6
   \<and> TwoWireCallback (command_table [0x1234, 0x5678]) 8 (frame [0x80]) 1 6
           = ([], Some (2, (frame [0x80])(0 := INVALID_TRANSFER, 1 := 0x09)))
   \<and> reply (TwoWireCallback (command_table [0x1234, 0x5678]) 8 (frame [0x80]) 1 6)
           = Some [INVALID_TRANSFER, 0x09]
   \<and> calcCrc ((frame [0x80])(0 := INVALID_TRANSFER, 1 := 0x09)) 2 = 0"
proof -
  have a: "(8 :: u8) \<noteq> 0" by simp
  have b: "(1 :: u8) < 2" by simp
  have c: "(2 :: u8) \<le> 6" by simp
  from a b c
    short_frame_INVALID_TRANSFER [where address = 8 and len = 1 and maxLen = 6
      and h = "command_table [0x1234, 0x5678]" and data = "frame [0x80]", OF a b c]
  show ?thesis by blast
qed

text \<open>
  C3: take a frame of \<open>len \<ge> 2\<close> bytes whose checksum is zero and flip one bit of it
  (bit \<open>j\<close> of byte \<open>k\<close>, with \<open>k < len\<close> and \<open>j < 8\<close>). An addressed call with
  \<open>maxLen \<ge> 2\<close> on the result returns 2 with reply \<open>[INVALID_CRC, 0x1C]\<close> and makes no
  call: the command table is not invoked, and the status is not \<open>INVALID_TRANSFER\<close>.
\<close>

theorem single_bit_flip_INVALID_CRC:
  assumes "address \<noteq> 0" and "2 \<le> len" and "2 \<le> maxLen" and "calcCrc data len = 0"
    and "k < unat len" and "j < 8"
  shows "TwoWireCallback h address (data(k := flip_bit j (data k))) len maxLen
           = ([], Some (2, (data(k := flip_bit j (data k)))(0 := INVALID_CRC, 1 := 0x1C)))
       \<and> reply (TwoWireCallback h address (data(k := flip_bit j (data k))) len maxLen)
           = Some [INVALID_CRC, 0x1C]
       \<and> INVALID_CRC \<noteq> INVALID_TRANSFER"
proof -
  have "calcCrc (data(k := flip_bit j (data k))) len \<noteq> 0"
    using assms(4-6) unfolding calcCrc_upto by (intro crc_upto_flip_bit)
  note tw = TwoWireCallback_bad_crc [OF assms(1-3) this, of h]
  moreover have "reply (TwoWireCallback h address (data(k := flip_bit j (data k))) len maxLen)
      = Some [INVALID_CRC, 0x1C]"
    by (simp add: tw reply_def upt_2)
  moreover have "INVALID_CRC \<noteq> INVALID_TRANSFER"
    by (simp add: INVALID_CRC_def INVALID_TRANSFER_def)
  ultimately show ?thesis by simp
qed

theorem single_bit_flip_INVALID_CRC_witness:
  "(8 :: u8) \<noteq> 0 \<and> (2 :: u8) \<le> 2 \<and> (2 :: u8) \<le> 6 \<and> calcCrc (frame [0x80, 0x89]) 2 = 0
   \<and> 1 < unat (2 :: u8) \<and> (0 :: nat) < 8
   \<and> TwoWireCallback (command_table [0x1234, 0x5678]) 8
         ((frame [0x80, 0x89])(1 := flip_bit 0 (frame [0x80, 0x89] 1))) 2 6
       = ([], Some (2, ((frame [0x80, 0x89])(1 := flip_bit 0 (frame [0x80, 0x89] 1)))
                         (0 := INVALID_CRC, 1 := 0x1C)))
   \<and> reply (TwoWireCallback (command_table [0x1234, 0x5678]) 8
         ((frame [0x80, 0x89])(1 := flip_bit 0 (frame [0x80, 0x89] 1))) 2 6)
       = Some [INVALID_CRC, 0x1C]"
proof -
  have a: "(8 :: u8) \<noteq> 0" by simp
  have b: "(2 :: u8) \<le> 2" by simp
  have c: "(2 :: u8) \<le> 6" by simp
  have d: "calcCrc (frame [0x80, 0x89]) 2 = 0" by (rule calcCrc_request)
  have e: "1 < unat (2 :: u8)" by simp
  have f: "(0 :: nat) < 8" by simp
  from a b c d e f
    single_bit_flip_INVALID_CRC [where address = 8 and len = 2 and maxLen = 6
      and data = "frame [0x80, 0x89]" and k = 1 and j = 0
      and h = "command_table [0x1234, 0x5678]", OF a b c d e f]
  show ?thesis by blast
qed

subsection \<open>Addressed calls that reach the command table\<close>

text \<open>
  The command table of Main.cpp declares a payload of 0 or 4 bytes, and 4 only when it was
  given room for them: it keeps to the reply capacity it receives.
\<close>

lemma command_table_rlen:
  "command_table measurement cmd d l cap = (res, out) \<Longrightarrow> rlen res = 0 \<or> rlen res = 4 \<and> 4 \<le> cap"
  by (auto simp add: command_table_def processCommand_def mk_cmd_result_def split: if_splits)

lemma command_table_in_capacity:
  "command_table measurement cmd d l cap = (res, out) \<Longrightarrow> rlen res \<le> cap"
  by (auto dest: command_table_rlen)

lemma in_capacity_253:
  assumes "2 \<le> maxLen" and "rlen res \<le> maxLen - 2"
  shows "rlen res \<le> 253"
proof -
  have "unat (maxLen - 2) = unat maxLen - 2"
    using assms(1) by (simp add: unat_sub)
  moreover have "unat maxLen < 256"
    using unsigned_less [of maxLen, where 'a = nat] by simp
  ultimately have "unat (rlen res) \<le> 253"
    using assms(2) by (simp add: word_le_nat_alt)
  then show ?thesis by (simp add: word_le_nat_alt)
qed

lemma framed_reply_upto_253:
  assumes "address \<noteq> 0" and "2 \<le> len" and "2 \<le> maxLen" and "calcCrc data len = 0"
    and "h (data 0) (plus1 data) (len - 2) (maxLen - 2) = (res, out)"
    and "status res \<noteq> NO_REPLY" and "rlen res \<le> 253"
  shows "\<exists>buf. TwoWireCallback h address data len maxLen
             = ([ProcessCommand (data 0) (len - 2) (maxLen - 2)],
                Some (uint (rlen res) + 2, buf))
         \<and> buf 0 = status res
         \<and> (\<forall>i. 1 \<le> i \<and> i \<le> unat (rlen res) \<longrightarrow> buf i = out (i - 1))
         \<and> calcCrc buf (rlen res + 2) = 0"
proof -
  define d1 where "d1 = (written_back data out)(0 := status res)"
  define buf where "buf = d1(unat (rlen res + 1) := calcCrc d1 (rlen res + 1))"
  have le: "rlen res \<le> 254" using assms(7) by (simp add: word_le_nat_alt)
  have u: "unat (rlen res + 1) = Suc (unat (rlen res))"
    using le by (rule unat_plus1)
  note tw = TwoWireCallback_handler [of address len maxLen data h res out, OF assms(1-5)]
  have "TwoWireCallback h address data len maxLen
      = ([ProcessCommand (data 0) (len - 2) (maxLen - 2)], Some (uint (rlen res) + 2, buf))"
    using assms(6) uint_plus2 [OF assms(7)]
    by (simp add: tw append_crc_def buf_def d1_def)
  moreover have "buf 0 = status res"
    by (simp add: buf_def d1_def u)
  moreover have "buf i = out (i - 1)" if "1 \<le> i \<and> i \<le> unat (rlen res)" for i
  proof -
    from that obtain j where "i = Suc j" by (cases i) auto
    with that show ?thesis by (simp add: buf_def d1_def u written_back_simps)
  qed
  moreover have "calcCrc buf (rlen res + 2) = 0"
  proof -
    have "rlen res + 1 + 1 = rlen res + 2" by simp
    with calcCrc_append [of d1 "rlen res + 1"] show ?thesis by (simp only: buf_def)
  qed
  ultimately show ?thesis by blast
qed

text \<open>
  C1: for every addressed call (\<open>address \<noteq> 0\<close>) on a well-formed frame (\<open>len \<ge> 2\<close>,
  \<open>maxLen \<ge> 2\<close>, checksum zero over all \<open>len\<close> bytes) whose command byte the command table
  answers with a status \<open>s\<close> other than \<open>NO_REPLY\<close> and a declared payload length \<open>p\<close>, the
  dispatcher calls the command table once and returns \<open>p + 2\<close>; the first byte of the
  reply is \<open>s\<close>, bytes \<open>1..p\<close> are the bytes the command table left at \<open>data + 1\<close>, and
  the checksum over the \<open>p + 2\<close> bytes of the reply is zero. The command table is the one
  of Main.cpp, whatever the stored measurements, or any other that declares no more than
  the reply capacity \<open>maxLen - 2\<close> it is given.
\<close>

theorem dispatch_reply_framed:
  assumes "address \<noteq> 0" and "2 \<le> len" and "2 \<le> maxLen" and "calcCrc data len = 0"
    and "h (data 0) (plus1 data) (len - 2) (maxLen - 2) = (res, out)"
    and "status res \<noteq> NO_REPLY"
    and "h = command_table measurement \<or> rlen res \<le> maxLen - 2"
  shows "\<exists>buf. TwoWireCallback h address data len maxLen
             = ([ProcessCommand (data 0) (len - 2) (maxLen - 2)],
                Some (uint (rlen res) + 2, buf))
         \<and> buf 0 = status res
         \<and> (\<forall>i. 1 \<le> i \<and> i \<le> unat (rlen res) \<longrightarrow> buf i = out (i - 1))
         \<and> calcCrc buf (rlen res + 2) = 0"
proof -
  have "rlen res \<le> maxLen - 2"
    using assms(5,7) by (auto dest: command_table_in_capacity)
  with assms(3) have "rlen res \<le> 253"
    by (rule in_capacity_253)
  with assms(1-6) show ?thesis
    by (rule framed_reply_upto_253)
qed

theorem dispatch_reply_framed_witness:
  "(8 :: u8) \<noteq> 0 \<and> (2 :: u8) \<le> 2 \<and> (2 :: u8) \<le> 6 \<and> calcCrc (frame [0x80, 0x89]) 2 = 0
   \<and> command_table [0x1234, 0x5678] (frame [0x80, 0x89] 0) (plus1 (frame [0x80, 0x89]))
         (2 - 2) (6 - 2)
       = (mk_cmd_result COMMAND_OK 4,
          (plus1 (frame [0x80, 0x89]))(0 := 0x12, 1 := 0x34, 2 := 0x56, 3 := 0x78))
   \<and> status (mk_cmd_result COMMAND_OK 4) \<noteq> NO_REPLY
   \<and> rlen (mk_cmd_result COMMAND_OK 4) \<le> 6 - 2
   \<and> (\<exists>buf. TwoWireCallback (command_table [0x1234, 0x5678]) 8 (frame [0x80, 0x89]) 2 6
             = ([ProcessCommand (frame [0x80, 0x89] 0) (2 - 2) (6 - 2)],
                Some (uint (rlen (mk_cmd_result COMMAND_OK 4)) + 2, buf))
         \<and> buf 0 = status (mk_cmd_result COMMAND_OK 4)
         \<and> (\<forall>i. 1 \<le> i \<and> i \<le> unat (rlen (mk_cmd_result COMMAND_OK 4)) \<longrightarrow>
               buf i = ((plus1 (frame [0x80, 0x89]))
                          (0 := 0x12, 1 := 0x34, 2 := 0x56, 3 := 0x78)) (i - 1))
         \<and> calcCrc buf (rlen (mk_cmd_result COMMAND_OK 4) + 2) = 0)"
proof -
  have a: "(8 :: u8) \<noteq> 0" by simp
  have b: "(2 :: u8) \<le> 2" by simp
  have c: "(2 :: u8) \<le> 6" by simp
  have d: "calcCrc (frame [0x80, 0x89]) 2 = 0" by (rule calcCrc_request)
  have e: "command_table [0x1234, 0x5678] (frame [0x80, 0x89] 0) (plus1 (frame [0x80, 0x89]))
         (2 - 2) (6 - 2)
       = (mk_cmd_result COMMAND_OK 4,
          (plus1 (frame [0x80, 0x89]))(0 := 0x12, 1 := 0x34, 2 := 0x56, 3 := 0x78))"
    using get_last_measurement [of "plus1 (frame [0x80, 0x89])"] by (simp add: frame_def)
  have f: "status (mk_cmd_result COMMAND_OK 4) \<noteq> NO_REPLY"
    by (simp add: mk_cmd_result_def COMMAND_OK_def NO_REPLY_def)
  have g: "rlen (mk_cmd_result COMMAND_OK 4) \<le> 6 - 2"
    by (simp add: mk_cmd_result_def)
  then have g': "command_table [0x1234, 0x5678] = command_table [0x1234, 0x5678]
      \<or> rlen (mk_cmd_result COMMAND_OK 4) \<le> 6 - 2"
    by (rule disjI2)
  from a b c d e f g
    dispatch_reply_framed [where address = 8 and len = 2 and maxLen = 6
      and data = "frame [0x80, 0x89]" and h = "command_table [0x1234, 0x5678]"
      and measurement = "[0x1234, 0x5678]"
      and res = "mk_cmd_result COMMAND_OK 4"
      and out = "(plus1 (frame [0x80, 0x89]))(0 := 0x12, 1 := 0x34, 2 := 0x56, 3 := 0x78)",
      OF a b c d e f g']
  show ?thesis by (intro conjI)
qed

text \<open>
  C5, amended: with the measurements \<open>(0x1234, 0x5678)\<close> stored, an addressed call with
  \<open>len = 2\<close> and \<open>maxLen = 6\<close> on the request \<open>[0x80, 0x89]\<close> (the command
  \<open>GET_LAST_MEASUREMENT\<close> followed by its checksum \<open>0x89\<close>) returns 6, and the reply is
  \<open>[COMMAND_OK, 0x12, 0x34, 0x56, 0x78, 0x1C]\<close>.
\<close>

theorem get_last_measurement_scenario:
  assumes "address \<noteq> 0" and "data 0 = 0x80" and "data 1 = 0x89"
  shows "returned (TwoWireCallback (command_table [0x1234, 0x5678]) address data 2 6) = Some 6
       \<and> reply (TwoWireCallback (command_table [0x1234, 0x5678]) address data 2 6)
           = Some [COMMAND_OK, 0x12, 0x34, 0x56, 0x78, 0x1C]"
  by (simp add: TwoWireCallback_measurement [OF assms] returned_def reply_def upt_6
      written_back_simps COMMAND_OK_def)

theorem get_last_measurement_scenario_witness:
  "(8 :: u8) \<noteq> 0 \<and> frame [0x80, 0x89] 0 = 0x80 \<and> frame [0x80, 0x89] 1 = 0x89
   \<and> returned (TwoWireCallback (command_table [0x1234, 0x5678]) 8 (frame [0x80, 0x89]) 2 6)
       = Some 6
   \<and> reply (TwoWireCallback (command_table [0x1234, 0x5678]) 8 (frame [0x80, 0x89]) 2 6)
       = Some [COMMAND_OK, 0x12, 0x34, 0x56, 0x78, 0x1C]"
proof -
  have a: "(8 :: u8) \<noteq> 0" by simp
  have b: "frame [0x80, 0x89] 0 = 0x80" by (simp add: frame_def)
  have c: "frame [0x80, 0x89] 1 = 0x89" by (simp add: frame_def)
  from a b c
    get_last_measurement_scenario [where address = 8 and data = "frame [0x80, 0x89]",
      OF a b c]
  show ?thesis by (elim conjE) (intro conjI)
qed

text \<open>
  The request \<open>[0x80, 0x00]\<close>, with a zero byte in place of the checksum, does not
  checksum to zero
  (its checksum is \<open>0xB6\<close>): the dispatcher answers it with \<open>[INVALID_CRC, 0x1C]\<close>,
  length 2, and does not call the command table.
\<close>

theorem get_last_measurement_zero_crc_rejected:
  "calcCrc (frame [0x80, 0x00]) 2 = 0xB6
   \<and> TwoWireCallback (command_table [0x1234, 0x5678]) 8 (frame [0x80, 0x00]) 2 6
       = ([], Some (2, (frame [0x80, 0x00])(0 := INVALID_CRC, 1 := 0x1C)))
   \<and> returned (TwoWireCallback (command_table [0x1234, 0x5678]) 8 (frame [0x80, 0x00]) 2 6)
       = Some 2
   \<and> returned (TwoWireCallback (command_table [0x1234, 0x5678]) 8 (frame [0x80, 0x00]) 2 6)
       \<noteq> Some 6
   \<and> reply (TwoWireCallback (command_table [0x1234, 0x5678]) 8 (frame [0x80, 0x00]) 2 6)
       = Some [INVALID_CRC, 0x1C]
   \<and> INVALID_CRC \<noteq> COMMAND_OK"
proof -
  have v: "calcCrc (frame [0x80, 0x00]) 2 = 0xB6"
    by (simp add: calcCrc_2 frame_def crc_bad_request)
  then have "calcCrc (frame [0x80, 0x00]) 2 \<noteq> 0" by simp
  then have "TwoWireCallback (command_table [0x1234, 0x5678]) 8 (frame [0x80, 0x00]) 2 6
      = ([], Some (2, (frame [0x80, 0x00])(0 := INVALID_CRC, 1 := 0x1C)))"
    by (intro TwoWireCallback_bad_crc) simp_all
  then show ?thesis
    using v by (simp add: returned_def reply_def upt_2 INVALID_CRC_def COMMAND_OK_def)
qed

subsection \<open>Staying within the capacity\<close>

text \<open>
  C6: for an addressed call in which the command table, when it is invoked (\<open>maxLen \<ge> 2\<close>,
  \<open>len \<ge> 2\<close>, checksum zero), declares a payload length of at most \<open>maxLen - 2\<close>, the
  dispatcher returns, the length it returns is between 0 and \<open>maxLen\<close>, and every byte
  at an index \<open>i \<ge> maxLen\<close> is as the dispatcher found it: as the command table left it
  when it was invoked, and as it was on entry otherwise.
\<close>

theorem reply_within_maxLen:
  assumes "address \<noteq> 0"
    and "2 \<le> maxLen \<and> 2 \<le> len \<and> calcCrc data len = 0 \<longrightarrow>
           rlen (fst (h (data 0) (plus1 data) (len - 2) (maxLen - 2))) \<le> maxLen - 2"
  shows "\<exists>calls n buf. TwoWireCallback h address data len maxLen = (calls, Some (n, buf))
         \<and> 0 \<le> n \<and> n \<le> uint maxLen
         \<and> (\<forall>i \<ge> unat maxLen. buf i =
               (if 2 \<le> maxLen \<and> 2 \<le> len \<and> calcCrc data len = 0
                then written_back data (snd (h (data 0) (plus1 data) (len - 2) (maxLen - 2))) i
                else data i))"
proof (cases "maxLen < 2")
  case True
  then have "\<not> 2 \<le> maxLen" by simp
  with True assms(1) show ?thesis by (simp add: TwoWireCallback_def)
next
  case False
  then have m: "2 \<le> maxLen" by simp
  then have um: "2 \<le> unat maxLen" by (simp add: word_le_nat_alt)
  from m have im: "2 \<le> uint maxLen" by (simp add: word_le_def)
  have short: "\<exists>calls n buf. ([], Some (append_crc (data(0 := s)) 1)) = (calls, Some (n, buf))
         \<and> 0 \<le> n \<and> n \<le> uint maxLen \<and> (\<forall>i \<ge> unat maxLen. buf i = data i)" for s
    using um im by (simp add: append_crc_def)
  show ?thesis
  proof (cases "len < 2")
    case True
    then have "\<not> 2 \<le> len" by simp
    with True False assms(1) short [of INVALID_TRANSFER] show ?thesis
      by (simp add: TwoWireCallback_def)
  next
    case l: False
    show ?thesis
    proof (cases "calcCrc data len = 0")
      case False
      with l \<open>\<not> maxLen < 2\<close> assms(1) short [of INVALID_CRC] show ?thesis
        by (simp add: TwoWireCallback_def)
    next
      case True
      obtain res out where r: "h (data 0) (plus1 data) (len - 2) (maxLen - 2) = (res, out)"
        by (cases "h (data 0) (plus1 data) (len - 2) (maxLen - 2)")
      from l have l2: "2 \<le> len" by simp
      from assms(2) m l2 True r have p: "rlen res \<le> maxLen - 2" by simp
      have up: "unat (rlen res) + 2 \<le> unat maxLen"
        using p um m by (simp add: word_le_nat_alt unat_sub)
      then have "unat (rlen res) \<le> 253"
        using unsigned_less [of maxLen, where 'a = nat] by simp
      then have p253: "rlen res \<le> 253" by (simp add: word_le_nat_alt)
      then have p254: "rlen res \<le> 254" by (simp add: word_le_nat_alt)
      have u1: "unat (rlen res + 1) = Suc (unat (rlen res))"
        using p254 by (rule unat_plus1)
      have u2: "uint (rlen res + 1 + 1) = uint (rlen res) + 2"
        using p253 by (rule uint_plus2)
      have "int (unat (rlen res) + 2) \<le> int (unat maxLen)"
        using up by (simp only: of_nat_le_iff)
      then have n: "uint (rlen res) + 2 \<le> uint maxLen"
        by simp
      note tw = TwoWireCallback_handler [of address len maxLen data h res out,
          OF assms(1) l2 m True r]
      have w: "written_back data (snd (h (data 0) (plus1 data) (len - 2) (maxLen - 2)))
          = written_back data out"
        by (simp add: r)
      show ?thesis
      proof (cases "status res = NO_REPLY")
        case True
        have "TwoWireCallback h address data len maxLen
          = ([ProcessCommand (data 0) (len - 2) (maxLen - 2)], Some (0, written_back data out))"
          using True by (simp add: tw)
        moreover have "(0::int) \<le> uint maxLen" by simp
        ultimately show ?thesis
          using m l2 \<open>calcCrc data len = 0\<close> w by auto
      next
        case False
        define d1 where "d1 = (written_back data out)(0 := status res)"
        define buf where "buf = d1(unat (rlen res + 1) := calcCrc d1 (rlen res + 1))"
        have "TwoWireCallback h address data len maxLen
          = ([ProcessCommand (data 0) (len - 2) (maxLen - 2)], Some (uint (rlen res) + 2, buf))"
          using False u2 by (simp add: tw append_crc_def buf_def d1_def)
        moreover have "0 \<le> uint (rlen res) + 2" by simp
        moreover have "buf i = written_back data out i" if "unat maxLen \<le> i" for i
          using that up u1 by (simp add: buf_def d1_def)
        ultimately show ?thesis
          using n m l2 \<open>calcCrc data len = 0\<close> w by auto
      qed
    qed
  qed
qed

theorem reply_within_maxLen_witness:
  "(8 :: u8) \<noteq> 0
   \<and> ((2 :: u8) \<le> 6 \<and> (2 :: u8) \<le> 2 \<and> calcCrc (frame [0x80, 0x89]) 2 = 0)
   \<and> rlen (fst (command_table [0x1234, 0x5678] (frame [0x80, 0x89] 0)
              (plus1 (frame [0x80, 0x89])) (2 - 2) (6 - 2))) \<le> 6 - 2
   \<and> (\<exists>calls n buf.
         TwoWireCallback (command_table [0x1234, 0x5678]) 8 (frame [0x80, 0x89]) 2 6
           = (calls, Some (n, buf))
         \<and> 0 \<le> n \<and> n \<le> uint (6 :: u8)
         \<and> (\<forall>i \<ge> unat (6 :: u8). buf i =
               (if (2 :: u8) \<le> 6 \<and> (2 :: u8) \<le> 2 \<and> calcCrc (frame [0x80, 0x89]) 2 = 0
                then written_back (frame [0x80, 0x89])
                       (snd (command_table [0x1234, 0x5678] (frame [0x80, 0x89] 0)
                              (plus1 (frame [0x80, 0x89])) (2 - 2) (6 - 2))) i
                else frame [0x80, 0x89] i)))"
proof -
  have a: "(8 :: u8) \<noteq> 0" by simp
  have b: "(2 :: u8) \<le> 6 \<and> (2 :: u8) \<le> 2 \<and> calcCrc (frame [0x80, 0x89]) 2 = 0"
    by (simp add: calcCrc_request)
  have c: "rlen (fst (command_table [0x1234, 0x5678] (frame [0x80, 0x89] 0)
              (plus1 (frame [0x80, 0x89])) (2 - 2) (6 - 2))) \<le> 6 - 2"
    using get_last_measurement [of "plus1 (frame [0x80, 0x89])"]
    by (simp add: frame_def mk_cmd_result_def)
  from b c have d: "(2 :: u8) \<le> 6 \<and> (2 :: u8) \<le> 2 \<and> calcCrc (frame [0x80, 0x89]) 2 = 0 \<longrightarrow>
       rlen (fst (command_table [0x1234, 0x5678] (frame [0x80, 0x89] 0)
              (plus1 (frame [0x80, 0x89])) (2 - 2) (6 - 2))) \<le> 6 - 2"
    by blast
  from a b c
    reply_within_maxLen [where address = 8 and len = 2 and maxLen = 6
      and data = "frame [0x80, 0x89]" and h = "command_table [0x1234, 0x5678]", OF a d]
  show ?thesis by (elim conjE) (intro conjI)
qed

end
